theory Spec2Isabelle
  imports Complex_Main
begin

section \<open>Python values\<close>

text \<open>
  The adapter of \<^verbatim>\<open>src/pipelines/claude.py\<close> handles option values of type
  \<^verbatim>\<open>Any\<close>. It never computes with them: it stores them, passes them on, compares one
  with the string \<^verbatim>\<open>"text"\<close> and tests their truth value in \<^verbatim>\<open>x or y\<close> and
  \<^verbatim>\<open>if not x\<close>. A Python \<^verbatim>\<open>str\<close> is a \<open>string\<close> whose characters are code points
  below 256; a float is the real number its literal denotes (the code only moves floats
  around and never does arithmetic on them).
\<close>

datatype pyval =
    PNone
  | PBool bool
  | PInt int
  | PFloat real
  | PStr string
  | PList "pyval list"

text \<open>Python's truth value testing: \<^verbatim>\<open>None\<close>, \<^verbatim>\<open>False\<close>, zero and empty containers are false.\<close>

fun truthy :: "pyval \<Rightarrow> bool" where
  "truthy PNone = False"
| "truthy (PBool b) = b"
| "truthy (PInt i) = (i \<noteq> 0)"
| "truthy (PFloat f) = (f \<noteq> 0)"
| "truthy (PStr s) = (s \<noteq> [])"
| "truthy (PList xs) = (xs \<noteq> [])"

text \<open>\<^verbatim>\<open>a or b\<close> is \<^verbatim>\<open>a\<close> when \<^verbatim>\<open>a\<close> is true, and \<^verbatim>\<open>b\<close> otherwise.\<close>

definition py_or :: "pyval \<Rightarrow> pyval \<Rightarrow> pyval" where
  "py_or a b = (if truthy a then a else b)"

type_synonym pydict = "string \<rightharpoonup> pyval"

text \<open>\<^verbatim>\<open>d.get(k)\<close> is \<^verbatim>\<open>None\<close> for a missing key; \<^verbatim>\<open>d.get(k, v)\<close> is \<^verbatim>\<open>v\<close>.\<close>

definition dict_get :: "pydict \<Rightarrow> string \<Rightarrow> pyval" where
  "dict_get d k = (case d k of None \<Rightarrow> PNone | Some v \<Rightarrow> v)"

definition dict_get_default :: "pydict \<Rightarrow> string \<Rightarrow> pyval \<Rightarrow> pyval" where
  "dict_get_default d k v = (case d k of None \<Rightarrow> v | Some u \<Rightarrow> u)"

datatype py_error =
    RuntimeError string
  | KeyError string
  | TypeError
  | RemoteCallError string

section \<open>Objects of the adapter's environment\<close>

text \<open>
  \<^verbatim>\<open>AppConfig\<close> lives in \<^verbatim>\<open>..config\<close>; the adapter reads it only through
  \<^verbatim>\<open>getattr(getattr(cfg, "llm", None), "prompt", None)\<close>, so an attribute is either
  absent or carries a value.
\<close>

datatype llm_config = LLMConfig (prompt_attr: "pyval option")

datatype app_config = AppConfig (llm_attr: "llm_config option")

definition global_prompt :: "app_config \<Rightarrow> pyval" where
  "global_prompt cfg =
     (case llm_attr cfg of
        None \<Rightarrow> PNone
      | Some l \<Rightarrow> (case prompt_attr l of None \<Rightarrow> PNone | Some p \<Rightarrow> p))"

text \<open>
  Dictionaries are mutable objects: a reference is an address of the store,
  \<open>heap\<close> gives the contents of each dictionary and \<open>next_ref\<close> is the first address
  that no object occupies yet.
\<close>

type_synonym ref = nat

text \<open>A client handle: the number of the construction that made it, and the key it was given.\<close>

datatype client = Anthropic (handle_id: nat) (client_api_key: pyval)

record message =
  role :: string
  content :: pyval

text \<open>The arguments of one \<^verbatim>\<open>client.messages.create\<close> call.\<close>

record request =
  req_model :: pyval
  req_max_tokens :: pyval
  req_temperature :: pyval
  req_messages :: "message list"

text \<open>
  A content segment of the reply, read through \<^verbatim>\<open>getattr(block, "type", None)\<close> and
  \<^verbatim>\<open>getattr(block, "text", "")\<close>; the reply itself through
  \<^verbatim>\<open>getattr(resp, "content", []) or []\<close>.
\<close>

datatype block = Block (type_attr: "pyval option") (text_attr: "pyval option")

datatype raw_response = RawResponse (content_attr: "block list option")

record llm_response =
  llm_text :: string
  llm_tool_calls :: "pyval list"
  llm_metadata :: pydict

datatype log_entry = Warning string | Debug string

text \<open>
  Everything outside the adapter object that its methods read or change: whether the
  module-level \<^verbatim>\<open>anthropic\<close> is a module (\<open>True\<close>) or \<^verbatim>\<open>None\<close>, the dictionaries, the
  client handles constructed so far, the remote calls dispatched so far and the log.
\<close>

record world =
  anthropic :: bool
  heap :: "ref \<Rightarrow> pydict"
  next_ref :: ref
  constructed :: "client list"
  requests :: "(client \<times> request) list"
  logged :: "log_entry list"

record adapter =
  component_key :: string
  app_config_of :: app_config
  provider_defaults :: ref
  pipeline_defaults :: ref
  client :: "client option"

text \<open>The result of a method: what it returns or raises, the adapter and the world after it.\<close>

type_synonym 'a outcome = "(py_error + 'a) \<times> adapter \<times> world"

section \<open>Dictionary operations on the store\<close>

text \<open>A dictionary display or \<^verbatim>\<open>{}\<close> makes a new object.\<close>

definition new_dict :: "world \<Rightarrow> pydict \<Rightarrow> ref \<times> world" where
  "new_dict w d =
     (next_ref w, w\<lparr>heap := (heap w)(next_ref w := d), next_ref := Suc (next_ref w)\<rparr>)"

text \<open>
  The contents of \<^verbatim>\<open>x or {}\<close> where \<^verbatim>\<open>x\<close> is \<^verbatim>\<open>None\<close> or a dictionary: an empty
  dictionary is false, and then the new \<^verbatim>\<open>{}\<close> has the same (empty) contents.
\<close>

definition dict_or_empty :: "world \<Rightarrow> ref option \<Rightarrow> pydict" where
  "dict_or_empty w r = (case r of None \<Rightarrow> Map.empty | Some a \<Rightarrow> heap w a)"

text \<open>
  \<^verbatim>\<open>x or {}\<close> when the result is kept: the object \<^verbatim>\<open>x\<close> itself if it is a non-empty
  dictionary, a new empty dictionary otherwise.
\<close>

definition ref_or_new :: "world \<Rightarrow> ref option \<Rightarrow> ref \<times> world" where
  "ref_or_new w r =
     (case r of
        None \<Rightarrow> new_dict w Map.empty
      | Some a \<Rightarrow> if heap w a = Map.empty then new_dict w Map.empty else (a, w))"

text \<open>\<^verbatim>\<open>d.setdefault(k, v)\<close> writes only when the key is missing.\<close>

definition dict_setdefault :: "pydict \<Rightarrow> string \<Rightarrow> pyval \<Rightarrow> pydict" where
  "dict_setdefault d k v = (if d k = None then d(k \<mapsto> v) else d)"

definition setdefault :: "world \<Rightarrow> ref \<Rightarrow> string \<Rightarrow> pyval \<Rightarrow> world" where
  "setdefault w r k v = w\<lparr>heap := (heap w)(r := dict_setdefault (heap w r) k v)\<rparr>"

section \<open>The adapter\<close>

definition init :: "world \<Rightarrow> string \<Rightarrow> app_config \<Rightarrow> ref option \<Rightarrow> ref option \<Rightarrow> adapter \<times> world" where
  "init w key cfg provider_config options =
     (let (pd, w1) = ref_or_new w provider_config;
          (pl, w2) = ref_or_new w1 options
      in (\<lparr>component_key = key, app_config_of = cfg, provider_defaults = pd,
           pipeline_defaults = pl, client = None\<rparr>, w2))"

definition start :: "world \<Rightarrow> adapter \<Rightarrow> unit outcome" where
  "start w self =
     (if \<not> anthropic w
      then (Inr (), self,
            w\<lparr>logged := logged w @ [Warning ''anthropic package not installed; Claude adapter will not run'']\<rparr>)
      else (Inr (), self, w\<lparr>logged := logged w @ [Debug ''Claude LLM adapter initialized'']\<rparr>))"

definition stop :: "world \<Rightarrow> adapter \<Rightarrow> unit outcome" where
  "stop w self = (Inr (), self\<lparr>client := None\<rparr>, w)"

definition open_call :: "world \<Rightarrow> adapter \<Rightarrow> string \<Rightarrow> ref option \<Rightarrow> unit outcome" where
  "open_call w self call_id options = (Inr (), self, w)"

definition close_call :: "world \<Rightarrow> adapter \<Rightarrow> string \<Rightarrow> unit outcome" where
  "close_call w self call_id = (Inr (), self, w)"

definition build_client :: "world \<Rightarrow> adapter \<Rightarrow> pyval \<Rightarrow> client outcome" where
  "build_client w self api_key =
     (if \<not> anthropic w
      then (Inl (RuntimeError ''anthropic package is not installed. Run `pip install anthropic`.''), self, w)
      else (case client self of
              None \<Rightarrow>
                (let c = Anthropic (length (constructed w)) api_key
                 in (Inr c, self\<lparr>client := Some c\<rparr>, w\<lparr>constructed := constructed w @ [c]\<rparr>))
            | Some c \<Rightarrow> (Inr c, self, w)))"

definition merge_options :: "world \<Rightarrow> adapter \<Rightarrow> ref option \<Rightarrow> ref \<times> world" where
  "merge_options w self runtime =
     (let (merged, w1) = new_dict w (heap w (provider_defaults self)
                                      ++ heap w (pipeline_defaults self)
                                      ++ dict_or_empty w runtime);
          w2 = setdefault w1 merged ''model'' (PStr ''claude-3-5-sonnet-20240620'');
          w3 = setdefault w2 merged ''temperature'' (PFloat 0.6);
          w4 = setdefault w3 merged ''max_tokens'' (PInt 256)
      in (merged, w4))"

text \<open>
  \<^verbatim>\<open>str.strip()\<close>: the white space of \<^verbatim>\<open>str.isspace\<close> among the code points below
  256 is tab to carriage return, the four separators 28 to 31, the space, 133 and 160.
\<close>

definition isspace :: "char \<Rightarrow> bool" where
  "isspace c =
     (let n = (of_char c :: nat)
      in (9 \<le> n \<and> n \<le> 13) \<or> (28 \<le> n \<and> n \<le> 32) \<or> n = 133 \<or> n = 160)"

definition strip :: "string \<Rightarrow> string" where
  "strip s = rev (dropWhile isspace (rev (dropWhile isspace s)))"

text \<open>
  The loop over \<^verbatim>\<open>getattr(resp, "content", []) or []\<close> that collects
  \<^verbatim>\<open>getattr(block, "text", "")\<close> of every block whose type is \<^verbatim>\<open>"text"\<close>.
\<close>

definition response_blocks :: "raw_response \<Rightarrow> block list" where
  "response_blocks resp = (case content_attr resp of None \<Rightarrow> [] | Some bs \<Rightarrow> bs)"

definition block_type :: "block \<Rightarrow> pyval" where
  "block_type b = (case type_attr b of None \<Rightarrow> PNone | Some t \<Rightarrow> t)"

definition block_text :: "block \<Rightarrow> pyval" where
  "block_text b = (case text_attr b of None \<Rightarrow> PStr [] | Some t \<Rightarrow> t)"

fun text_parts :: "block list \<Rightarrow> pyval list" where
  "text_parts [] = []"
| "text_parts (b # bs) =
     (if block_type b = PStr ''text'' then block_text b # text_parts bs else text_parts bs)"

text \<open>\<^verbatim>\<open>"".join(parts)\<close> raises \<^verbatim>\<open>TypeError\<close> at an item that is not a \<^verbatim>\<open>str\<close>.\<close>

fun join :: "pyval list \<Rightarrow> py_error + string" where
  "join [] = Inr []"
| "join (PStr s # ps) = (case join ps of Inl e \<Rightarrow> Inl e | Inr t \<Rightarrow> Inr (s @ t))"
| "join (_ # ps) = Inl TypeError"

text \<open>
  The steps of \<^verbatim>\<open>generate\<close>, in the order of the source. \<open>merged\<close> is the
  dictionary that \<^verbatim>\<open>_merge_options\<close> returned.

  \<^verbatim>\<open>api_key = merged.get("api_key") or self._provider_defaults.get("api_key")\<close>
\<close>

definition resolve_api_key :: "world \<Rightarrow> adapter \<Rightarrow> ref \<Rightarrow> pyval" where
  "resolve_api_key w self merged =
     py_or (dict_get (heap w merged) ''api_key'')
           (dict_get (heap w (provider_defaults self)) ''api_key'')"

text \<open>
  \<^verbatim>\<open>system_prompt = merged.get("system") or getattr(getattr(self._app_config, "llm", None), "prompt", None)\<close>
\<close>

definition resolve_system_prompt :: "world \<Rightarrow> adapter \<Rightarrow> ref \<Rightarrow> pyval" where
  "resolve_system_prompt w self merged =
     py_or (dict_get (heap w merged) ''system'') (global_prompt (app_config_of self))"

text \<open>The list \<^verbatim>\<open>messages\<close>: the system entry if the prompt is true, then the user entry.\<close>

definition build_messages :: "world \<Rightarrow> adapter \<Rightarrow> ref \<Rightarrow> string \<Rightarrow> message list" where
  "build_messages w self merged transcript =
     (let system_prompt = resolve_system_prompt w self merged
      in (if truthy system_prompt then [\<lparr>role = ''system'', content = system_prompt\<rparr>] else [])
         @ [\<lparr>role = ''user'', content = PStr transcript\<rparr>])"

text \<open>
  The keyword arguments of \<^verbatim>\<open>client.messages.create\<close>; \<^verbatim>\<open>merged["model"]\<close> raises
  \<^verbatim>\<open>KeyError\<close> on a missing key.
\<close>

definition build_request :: "world \<Rightarrow> adapter \<Rightarrow> ref \<Rightarrow> string \<Rightarrow> py_error + request" where
  "build_request w self merged transcript =
     (case heap w merged ''model'' of
        None \<Rightarrow> Inl (KeyError ''model'')
      | Some model \<Rightarrow>
          Inr \<lparr>req_model = model,
               req_max_tokens = dict_get_default (heap w merged) ''max_tokens'' (PInt 256),
               req_temperature = dict_get_default (heap w merged) ''temperature'' (PFloat 0.6),
               req_messages = build_messages w self merged transcript\<rparr>)"

text \<open>\<^verbatim>\<open>text = "".join(text_parts).strip()\<close> over the blocks of the reply.\<close>

definition response_text :: "raw_response \<Rightarrow> py_error + string" where
  "response_text resp =
     (case join (text_parts (response_blocks resp)) of
        Inl e \<Rightarrow> Inl e
      | Inr joined \<Rightarrow> Inr (strip joined))"

text \<open>
  \<^verbatim>\<open>generate\<close>. The remote service is the parameter \<open>api\<close>: what
  \<^verbatim>\<open>client.messages.create\<close> returns or raises for a client and a request. The call
  runs in an executor thread and the coroutine awaits it; the model runs it in place.
  \<open>requests\<close> records every call that is dispatched. An exception leaves the adapter
  and the world as they are when it is raised.
\<close>

definition generate ::
  "(client \<Rightarrow> request \<Rightarrow> py_error + raw_response) \<Rightarrow> world \<Rightarrow> adapter \<Rightarrow>
     string \<Rightarrow> string \<Rightarrow> ref option \<Rightarrow> ref option \<Rightarrow> llm_response outcome" where
  "generate api w self call_id transcript context options =
     (let (merged, w1) = merge_options w self options;
          api_key = resolve_api_key w1 self merged
      in if \<not> truthy api_key
         then (Inl (RuntimeError ''Claude LLM requires an api_key (set CLAUDE_API_KEY or pipeline options.api_key)''),
               self, w1)
         else
           (case build_client w1 self api_key of
              (Inl e, self1, w2) \<Rightarrow> (Inl e, self1, w2)
            | (Inr cl, self1, w2) \<Rightarrow>
                (case build_request w2 self1 merged transcript of
                   Inl e \<Rightarrow> (Inl e, self1, w2)
                 | Inr req \<Rightarrow>
                     (let w3 = w2\<lparr>requests := requests w2 @ [(cl, req)]\<rparr>
                      in (case api cl req of
                            Inl e \<Rightarrow> (Inl e, self1, w3)
                          | Inr resp \<Rightarrow>
                              (case response_text resp of
                                 Inl e \<Rightarrow> (Inl e, self1, w3)
                               | Inr txt \<Rightarrow>
                                   (Inr \<lparr>llm_text = txt, llm_tool_calls = [],
                                         llm_metadata = [''model'' \<mapsto> req_model req]\<rparr>,
                                    self1,
                                    w3\<lparr>logged := logged w3 @ [Debug ''Claude response'']\<rparr>)))))))"

text \<open>
  A caller drives the adapter through its five methods; an exception of one call is the
  caller's to handle and the next call sees the adapter and the world it left.
\<close>

datatype call =
    Start
  | Stop
  | OpenCall string "ref option"
  | CloseCall string
  | Generate "client \<Rightarrow> request \<Rightarrow> py_error + raw_response" string string "ref option" "ref option"

fun step :: "adapter \<times> world \<Rightarrow> call \<Rightarrow> adapter \<times> world" where
  "step (self, w) Start = snd (start w self)"
| "step (self, w) Stop = snd (stop w self)"
| "step (self, w) (OpenCall call_id options) = snd (open_call w self call_id options)"
| "step (self, w) (CloseCall call_id) = snd (close_call w self call_id)"
| "step (self, w) (Generate api call_id transcript context options) =
     snd (generate api w self call_id transcript context options)"

definition run :: "adapter \<times> world \<Rightarrow> call list \<Rightarrow> adapter \<times> world" where
  "run s cs = foldl step s cs"

fun is_stop :: "call \<Rightarrow> bool" where
  "is_stop Stop = True"
| "is_stop _ = False"

section \<open>The example of the specification\<close>

text \<open>
  Provider defaults \<^verbatim>\<open>{api_key: "k1", temperature: 0.2}\<close> at address 0, pipeline defaults
  \<^verbatim>\<open>{model: "m1"}\<close> at address 1 and runtime options \<^verbatim>\<open>{temperature: 0.9}\<close> at
  address 2.
\<close>

definition ex_world :: world where
  "ex_world =
     \<lparr>anthropic = True,
      heap = (\<lambda>_. Map.empty)
               (0 := [''api_key'' \<mapsto> PStr ''k1'', ''temperature'' \<mapsto> PFloat 0.2],
                1 := [''model'' \<mapsto> PStr ''m1''],
                2 := [''temperature'' \<mapsto> PFloat 0.9]),
      next_ref = 3, constructed = [], requests = [], logged = []\<rparr>"

definition ex_adapter :: adapter where
  "ex_adapter =
     \<lparr>component_key = ''claude_llm'', app_config_of = AppConfig None,
      provider_defaults = 0, pipeline_defaults = 1, client = None\<rparr>"

text \<open>The same layers, with runtime options \<^verbatim>\<open>{system: ""}\<close> at address 2.\<close>

definition ex_world_empty_system :: world where
  "ex_world_empty_system =
     \<lparr>anthropic = True,
      heap = (\<lambda>_. Map.empty)
               (0 := [''api_key'' \<mapsto> PStr ''k1'', ''temperature'' \<mapsto> PFloat 0.2],
                1 := [''model'' \<mapsto> PStr ''m1''],
                2 := [''system'' \<mapsto> PStr []]),
      next_ref = 3, constructed = [], requests = [], logged = []\<rparr>"

section \<open>The reply as the specification reads it\<close>

text \<open>
  The specification speaks of the text-typed content segments of a reply and of their
  text. A segment is text-typed when its type is the string \<^verbatim>\<open>"text"\<close>; its text is
  the string it carries, the empty string when it carries none. A reply of the provider
  is well typed when the text of every text-typed segment is a string or missing.
\<close>

definition is_text_segment :: "block \<Rightarrow> bool" where
  "is_text_segment b = (type_attr b = Some (PStr ''text''))"

definition segment_text :: "block \<Rightarrow> string" where
  "segment_text b = (case text_attr b of Some (PStr s) \<Rightarrow> s | _ \<Rightarrow> [])"

definition well_typed_segment :: "block \<Rightarrow> bool" where
  "well_typed_segment b =
     (case text_attr b of None \<Rightarrow> True | Some (PStr s) \<Rightarrow> True | Some _ \<Rightarrow> \<not> is_text_segment b)"

section \<open>Option merging\<close>

lemma setdefault_fields:
  "next_ref (setdefault w r k v) = next_ref w"
  "anthropic (setdefault w r k v) = anthropic w"
  "constructed (setdefault w r k v) = constructed w"
  "requests (setdefault w r k v) = requests w"
  "logged (setdefault w r k v) = logged w"
  by (simp_all add: setdefault_def)

text \<open>\<^verbatim>\<open>_merge_options\<close> allocates one dictionary and changes nothing else.\<close>

lemma merge_options_eq:
  "merge_options w self rt =
     (next_ref w,
      w\<lparr>heap := (heap w)(next_ref w :=
           dict_setdefault (dict_setdefault (dict_setdefault
             (heap w (provider_defaults self) ++ heap w (pipeline_defaults self) ++ dict_or_empty w rt)
             ''model'' (PStr ''claude-3-5-sonnet-20240620''))
             ''temperature'' (PFloat 0.6))
             ''max_tokens'' (PInt 256)),
        next_ref := Suc (next_ref w)\<rparr>)"
  by (simp add: merge_options_def new_dict_def setdefault_def Let_def)

lemma filled_lookup:
  "dict_setdefault (dict_setdefault (dict_setdefault d
       ''model'' (PStr ''claude-3-5-sonnet-20240620''))
       ''temperature'' (PFloat 0.6))
       ''max_tokens'' (PInt 256) k =
     (case d k of
        Some v \<Rightarrow> Some v
      | None \<Rightarrow> if k = ''model'' then Some (PStr ''claude-3-5-sonnet-20240620'')
                else if k = ''temperature'' then Some (PFloat 0.6)
                else if k = ''max_tokens'' then Some (PInt 256)
                else None)"
  by (simp add: dict_setdefault_def split: option.splits)

lemma merge_options_cell:
  "heap (snd (merge_options w self rt)) (fst (merge_options w self rt)) =
     dict_setdefault (dict_setdefault (dict_setdefault
             (heap w (provider_defaults self) ++ heap w (pipeline_defaults self) ++ dict_or_empty w rt)
             ''model'' (PStr ''claude-3-5-sonnet-20240620''))
             ''temperature'' (PFloat 0.6))
             ''max_tokens'' (PInt 256)"
  unfolding merge_options_eq by simp

lemma ex_cells:
  "heap ex_world (provider_defaults ex_adapter) =
     [''api_key'' \<mapsto> PStr ''k1'', ''temperature'' \<mapsto> PFloat 0.2]"
  "heap ex_world (pipeline_defaults ex_adapter) = [''model'' \<mapsto> PStr ''m1'']"
  "dict_or_empty ex_world (Some 2) = [''temperature'' \<mapsto> PFloat 0.9]"
  by (simp_all add: ex_world_def ex_adapter_def dict_or_empty_def)

text \<open>
  Claim C1. The dictionary that \<^verbatim>\<open>_merge_options\<close> returns holds, for every key, the
  value of the highest layer that has the key (runtime options over pipeline defaults
  over provider defaults); a key that no layer has gets the fallback
  \<^verbatim>\<open>"claude-3-5-sonnet-20240620"\<close> for \<^verbatim>\<open>model\<close>, \<^verbatim>\<open>0.6\<close> for \<^verbatim>\<open>temperature\<close> and
  \<^verbatim>\<open>256\<close> for \<^verbatim>\<open>max_tokens\<close>, and stays absent otherwise.
\<close>

theorem merge_options_three_way:
  "heap (snd (merge_options w self rt)) (fst (merge_options w self rt)) k =
     (case dict_or_empty w rt k of
        Some v \<Rightarrow> Some v
      | None \<Rightarrow>
          (case heap w (pipeline_defaults self) k of
             Some v \<Rightarrow> Some v
           | None \<Rightarrow>
               (case heap w (provider_defaults self) k of
                  Some v \<Rightarrow> Some v
                | None \<Rightarrow>
                    if k = ''model'' then Some (PStr ''claude-3-5-sonnet-20240620'')
                    else if k = ''temperature'' then Some (PFloat 0.6)
                    else if k = ''max_tokens'' then Some (PInt 256)
                    else None)))"
proof -
  let ?d = "heap w (provider_defaults self) ++ heap w (pipeline_defaults self)
              ++ dict_or_empty w rt"
  have cell: "heap (snd (merge_options w self rt)) (fst (merge_options w self rt)) k =
    (case ?d k of
        Some v \<Rightarrow> Some v
      | None \<Rightarrow> if k = ''model'' then Some (PStr ''claude-3-5-sonnet-20240620'')
                else if k = ''temperature'' then Some (PFloat 0.6)
                else if k = ''max_tokens'' then Some (PInt 256)
                else None)"
    by (simp only: merge_options_cell filled_lookup)
  show ?thesis
    unfolding cell
    by (cases "dict_or_empty w rt k"; cases "heap w (pipeline_defaults self) k";
        cases "heap w (provider_defaults self) k") (simp_all only: map_add_def option.case)
qed

text \<open>
  The example of the specification: the three layers of \<open>ex_world\<close> merge to
  \<^verbatim>\<open>{api_key: "k1", temperature: 0.9, model: "m1", max_tokens: 256}\<close>.
\<close>

theorem merge_options_three_way_witness:
  "heap (snd (merge_options ex_world ex_adapter (Some 2)))
        (fst (merge_options ex_world ex_adapter (Some 2))) =
     [''api_key'' \<mapsto> PStr ''k1'', ''temperature'' \<mapsto> PFloat 0.9,
      ''model'' \<mapsto> PStr ''m1'', ''max_tokens'' \<mapsto> PInt 256]"
proof (rule ext)
  fix k
  show "heap (snd (merge_options ex_world ex_adapter (Some 2)))
          (fst (merge_options ex_world ex_adapter (Some 2))) k =
       [''api_key'' \<mapsto> PStr ''k1'', ''temperature'' \<mapsto> PFloat 0.9,
        ''model'' \<mapsto> PStr ''m1'', ''max_tokens'' \<mapsto> PInt 256] k"
    unfolding merge_options_three_way [of ex_world ex_adapter "Some 2" k] ex_cells
    by (simp del: fun_upd_apply add: fun_upd_def)
qed

section \<open>What each step of generate changes\<close>


lemma merge_options_fst: "fst (merge_options w self rt) = next_ref w"
  unfolding merge_options_eq by simp

lemma merge_options_fields:
  "next_ref (snd (merge_options w self rt)) = Suc (next_ref w)"
  "anthropic (snd (merge_options w self rt)) = anthropic w"
  "constructed (snd (merge_options w self rt)) = constructed w"
  "requests (snd (merge_options w self rt)) = requests w"
  "logged (snd (merge_options w self rt)) = logged w"
  unfolding merge_options_eq by simp_all

lemma merge_options_frame:
  "r \<noteq> next_ref w \<Longrightarrow> heap (snd (merge_options w self rt)) r = heap w r"
  unfolding merge_options_eq by simp

lemma merge_options_lookup:
  "heap (snd (merge_options w self rt)) (next_ref w) k =
    (case (heap w (provider_defaults self) ++ heap w (pipeline_defaults self)
              ++ dict_or_empty w rt) k of
        Some v \<Rightarrow> Some v
      | None \<Rightarrow> if k = ''model'' then Some (PStr ''claude-3-5-sonnet-20240620'')
                else if k = ''temperature'' then Some (PFloat 0.6)
                else if k = ''max_tokens'' then Some (PInt 256)
                else None)"
  using merge_options_cell [of w self rt]
  by (simp only: merge_options_fst filled_lookup)

lemma merged_model_present:
  "\<exists>v. heap (snd (merge_options w self rt)) (next_ref w) ''model'' = Some v"
  unfolding merge_options_lookup by (simp split: option.splits)

lemma merged_other_key:
  "k \<noteq> ''model'' \<Longrightarrow> k \<noteq> ''temperature'' \<Longrightarrow> k \<noteq> ''max_tokens'' \<Longrightarrow>
   heap (snd (merge_options w self rt)) (next_ref w) k =
     (heap w (provider_defaults self) ++ heap w (pipeline_defaults self)
              ++ dict_or_empty w rt) k"
  unfolding merge_options_lookup by (simp add: map_add_def split: option.splits)

lemma build_client_heap:
  "heap (snd (snd (build_client w self k))) = heap w"
  "next_ref (snd (snd (build_client w self k))) = next_ref w"
  "anthropic (snd (snd (build_client w self k))) = anthropic w"
  "requests (snd (snd (build_client w self k))) = requests w"
  "logged (snd (snd (build_client w self k))) = logged w"
  by (simp_all add: build_client_def Let_def split: option.splits)

lemma build_client_adapter:
  "provider_defaults (fst (snd (build_client w self k))) = provider_defaults self"
  "pipeline_defaults (fst (snd (build_client w self k))) = pipeline_defaults self"
  "app_config_of (fst (snd (build_client w self k))) = app_config_of self"
  "component_key (fst (snd (build_client w self k))) = component_key self"
  by (simp_all add: build_client_def Let_def split: option.splits)

lemma build_client_missing:
  "\<not> anthropic w \<Longrightarrow>
     build_client w self k =
       (Inl (RuntimeError ''anthropic package is not installed. Run `pip install anthropic`.''), self, w)"
  by (simp add: build_client_def)

lemma build_client_new:
  "anthropic w \<Longrightarrow> client self = None \<Longrightarrow>
     build_client w self k =
       (Inr (Anthropic (length (constructed w)) k),
        self\<lparr>client := Some (Anthropic (length (constructed w)) k)\<rparr>,
        w\<lparr>constructed := constructed w @ [Anthropic (length (constructed w)) k]\<rparr>)"
  by (simp add: build_client_def Let_def)

lemma build_client_reuse:
  "anthropic w \<Longrightarrow> client self = Some c \<Longrightarrow> build_client w self k = (Inr c, self, w)"
  by (simp add: build_client_def)

section \<open>The three ways through generate\<close>


lemma generate_no_key:
  assumes "\<not> truthy (resolve_api_key (snd (merge_options w self opts)) self (next_ref w))"
  shows "generate api w self cid t ctx opts =
           (Inl (RuntimeError ''Claude LLM requires an api_key (set CLAUDE_API_KEY or pipeline options.api_key)''),
            self, snd (merge_options w self opts))"
proof -
  obtain m w1 where mo: "merge_options w self opts = (m, w1)" by (cases "merge_options w self opts")
  have m: "m = next_ref w" using merge_options_fst [of w self opts] mo by simp
  show ?thesis using assms by (simp add: generate_def mo m)
qed

lemma generate_no_dependency:
  assumes "truthy (resolve_api_key (snd (merge_options w self opts)) self (next_ref w))"
    and "\<not> anthropic w"
  shows "generate api w self cid t ctx opts =
           (Inl (RuntimeError ''anthropic package is not installed. Run `pip install anthropic`.''),
            self, snd (merge_options w self opts))"
proof -
  obtain m w1 where mo: "merge_options w self opts = (m, w1)" by (cases "merge_options w self opts")
  have m: "m = next_ref w" using merge_options_fst [of w self opts] mo by simp
  have a: "\<not> anthropic w1" using merge_options_fields(2) [of w self opts] mo assms(2) by simp
  show ?thesis using assms(1) by (simp add: generate_def mo m build_client_missing [OF a])
qed

lemma build_request_heap:
  assumes "heap w' = heap w1" and "app_config_of self' = app_config_of self"
  shows "build_request w' self' m t = build_request w1 self m t"
  unfolding build_request_def build_messages_def resolve_system_prompt_def assms ..

lemma build_request_merged:
  "build_request (snd (merge_options w self opts)) self (next_ref w) t =
     Inr \<lparr>req_model = dict_get (heap (snd (merge_options w self opts)) (next_ref w)) ''model'',
          req_max_tokens = dict_get_default (heap (snd (merge_options w self opts)) (next_ref w)) ''max_tokens'' (PInt 256),
          req_temperature = dict_get_default (heap (snd (merge_options w self opts)) (next_ref w)) ''temperature'' (PFloat 0.6),
          req_messages = build_messages (snd (merge_options w self opts)) self (next_ref w) t\<rparr>"
proof -
  obtain v where v: "heap (snd (merge_options w self opts)) (next_ref w) ''model'' = Some v"
    using merged_model_present by blast
  show ?thesis by (simp add: build_request_def v dict_get_def)
qed


lemma generate_dispatch:
  assumes key: "truthy (resolve_api_key (snd (merge_options w self opts)) self (next_ref w))"
    and dep: "anthropic w"
  shows "generate api w self cid t ctx opts =
     (let w1 = snd (merge_options w self opts);
          cl = (case client self of
                  None \<Rightarrow> Anthropic (length (constructed w)) (resolve_api_key w1 self (next_ref w))
                | Some c \<Rightarrow> c);
          self1 = self\<lparr>client := Some cl\<rparr>;
          w2 = (case client self of
                  None \<Rightarrow> w1\<lparr>constructed := constructed w @ [cl]\<rparr>
                | Some c \<Rightarrow> w1);
          req = \<lparr>req_model = dict_get (heap w1 (next_ref w)) ''model'',
                 req_max_tokens = dict_get_default (heap w1 (next_ref w)) ''max_tokens'' (PInt 256),
                 req_temperature = dict_get_default (heap w1 (next_ref w)) ''temperature'' (PFloat 0.6),
                 req_messages = build_messages w1 self (next_ref w) t\<rparr>;
          w3 = w2\<lparr>requests := requests w @ [(cl, req)]\<rparr>
      in (case api cl req of
            Inl e \<Rightarrow> (Inl e, self1, w3)
          | Inr resp \<Rightarrow>
              (case response_text resp of
                 Inl e \<Rightarrow> (Inl e, self1, w3)
               | Inr txt \<Rightarrow>
                   (Inr \<lparr>llm_text = txt, llm_tool_calls = [],
                         llm_metadata = [''model'' \<mapsto> req_model req]\<rparr>,
                    self1, w3\<lparr>logged := logged w @ [Debug ''Claude response'']\<rparr>))))"
proof -
  obtain m w1 where mo: "merge_options w self opts = (m, w1)" by (cases "merge_options w self opts")
  have m: "m = next_ref w" using merge_options_fst [of w self opts] mo by simp
  have w1: "snd (merge_options w self opts) = w1" using mo by simp
  have a: "anthropic w1" and c1: "constructed w1 = constructed w"
    and r1: "requests w1 = requests w" and l1: "logged w1 = logged w"
    using merge_options_fields [of w self opts] dep by (simp_all add: w1)
  note br = build_request_merged [of w self opts t, unfolded w1]
  show ?thesis
  proof (cases "client self")
    case None
    have br': "build_request (w1\<lparr>constructed := constructed w @ [c]\<rparr>) (self\<lparr>client := Some c\<rparr>) (next_ref w) t
        = build_request w1 self (next_ref w) t" for c
      by (rule build_request_heap) simp_all
    show ?thesis
      using key
      by (simp add: generate_def mo m w1 build_client_new [OF a None] c1 r1 l1 br' br Let_def None
               split: sum.splits)
  next
    case (Some c)
    have s: "self\<lparr>client := Some c\<rparr> = self" using Some by simp
    show ?thesis
      using key
      by (simp add: generate_def mo m w1 build_client_reuse [OF a Some] c1 r1 l1 br Let_def Some s
               split: sum.splits)
  qed
qed


section \<open>Credentials\<close>

lemma no_key_resolved:
  assumes "''api_key'' \<notin> dom (heap w (provider_defaults self))"
    and "''api_key'' \<notin> dom (heap w (pipeline_defaults self))"
    and "''api_key'' \<notin> dom (dict_or_empty w opts)"
  shows "resolve_api_key (snd (merge_options w self opts)) self (next_ref w) = PNone"
proof -
  have m: "heap (snd (merge_options w self opts)) (next_ref w) ''api_key'' = None"
    using assms by (simp add: merged_other_key map_add_def domIff split: option.splits)
  have p: "heap (snd (merge_options w self opts)) (provider_defaults self) ''api_key'' = None"
  proof (cases "provider_defaults self = next_ref w")
    case True
    then show ?thesis using m by simp
  next
    case False
    then show ?thesis using assms(1) by (simp add: merge_options_frame domIff)
  qed
  show ?thesis by (simp add: resolve_api_key_def py_or_def dict_get_def m p)
qed

text \<open>
  Claim C2. When neither the provider defaults, nor the pipeline defaults, nor the
  runtime options have the key \<^verbatim>\<open>api_key\<close>, \<^verbatim>\<open>generate\<close> raises the
  \<^verbatim>\<open>RuntimeError\<close> about the missing \<^verbatim>\<open>api_key\<close>; the adapter holds the same
  client as before, no client has been constructed and no remote call dispatched.
\<close>

theorem generate_requires_api_key:
  assumes "''api_key'' \<notin> dom (heap w (provider_defaults self))"
    and "''api_key'' \<notin> dom (heap w (pipeline_defaults self))"
    and "''api_key'' \<notin> dom (dict_or_empty w options)"
  shows "fst (generate api w self call_id transcript context options) =
           Inl (RuntimeError ''Claude LLM requires an api_key (set CLAUDE_API_KEY or pipeline options.api_key)'')
         \<and> client (fst (snd (generate api w self call_id transcript context options))) = client self
         \<and> constructed (snd (snd (generate api w self call_id transcript context options))) = constructed w
         \<and> requests (snd (snd (generate api w self call_id transcript context options))) = requests w"
proof -
  have "\<not> truthy (resolve_api_key (snd (merge_options w self options)) self (next_ref w))"
    using no_key_resolved [OF assms] by simp
  from generate_no_key [OF this] show ?thesis
    by (simp add: merge_options_fields)
qed

text \<open>
  The layers of the example with every dictionary emptied: no key anywhere.
\<close>

theorem generate_requires_api_key_witness:
  "''api_key'' \<notin> dom (heap (ex_world\<lparr>heap := \<lambda>_. Map.empty\<rparr>) (provider_defaults ex_adapter))
   \<and> fst (generate (\<lambda>c r. Inr (RawResponse None)) (ex_world\<lparr>heap := \<lambda>_. Map.empty\<rparr>) ex_adapter
            ''call-1'' ''hello'' None None) =
       Inl (RuntimeError ''Claude LLM requires an api_key (set CLAUDE_API_KEY or pipeline options.api_key)'')
   \<and> requests (snd (snd (generate (\<lambda>c r. Inr (RawResponse None)) (ex_world\<lparr>heap := \<lambda>_. Map.empty\<rparr>)
            ex_adapter ''call-1'' ''hello'' None None))) = []"
  using generate_requires_api_key [of "ex_world\<lparr>heap := \<lambda>_. Map.empty\<rparr>" ex_adapter None
          "\<lambda>c r. Inr (RawResponse None)" "''call-1''" "''hello''" None]
  by (simp add: dict_or_empty_def ex_world_def)


section \<open>Projections of a dispatched call\<close>

lemma generate_requests:
  assumes "truthy (resolve_api_key (snd (merge_options w self opts)) self (next_ref w))"
    and "anthropic w"
  shows "requests (snd (snd (generate api w self cid t ctx opts))) =
     requests w @
       [(case client self of
           None \<Rightarrow> Anthropic (length (constructed w))
                     (resolve_api_key (snd (merge_options w self opts)) self (next_ref w))
         | Some c \<Rightarrow> c,
         \<lparr>req_model = dict_get (heap (snd (merge_options w self opts)) (next_ref w)) ''model'',
          req_max_tokens = dict_get_default (heap (snd (merge_options w self opts)) (next_ref w)) ''max_tokens'' (PInt 256),
          req_temperature = dict_get_default (heap (snd (merge_options w self opts)) (next_ref w)) ''temperature'' (PFloat 0.6),
          req_messages = build_messages (snd (merge_options w self opts)) self (next_ref w) t\<rparr>)]"
  unfolding generate_dispatch [OF assms] Let_def
  by (simp split: sum.splits option.splits)

lemma generate_client:
  assumes "truthy (resolve_api_key (snd (merge_options w self opts)) self (next_ref w))"
    and "anthropic w"
  shows "client (fst (snd (generate api w self cid t ctx opts))) =
     Some (case client self of
           None \<Rightarrow> Anthropic (length (constructed w))
                     (resolve_api_key (snd (merge_options w self opts)) self (next_ref w))
         | Some c \<Rightarrow> c)"
  unfolding generate_dispatch [OF assms] Let_def
  by (simp split: sum.splits option.splits)

lemma generate_constructed:
  assumes "truthy (resolve_api_key (snd (merge_options w self opts)) self (next_ref w))"
    and "anthropic w"
  shows "constructed (snd (snd (generate api w self cid t ctx opts))) =
     (case client self of
           None \<Rightarrow> constructed w @ [Anthropic (length (constructed w))
                     (resolve_api_key (snd (merge_options w self opts)) self (next_ref w))]
         | Some c \<Rightarrow> constructed w)"
  unfolding generate_dispatch [OF assms] Let_def
  by (simp add: merge_options_fields split: sum.splits option.splits)

lemma generate_result:
  assumes "truthy (resolve_api_key (snd (merge_options w self opts)) self (next_ref w))"
    and "anthropic w"
  shows "fst (generate (\<lambda>c r. Inr resp) w self cid t ctx opts) =
     (case response_text resp of
        Inl e \<Rightarrow> Inl e
      | Inr txt \<Rightarrow>
          Inr \<lparr>llm_text = txt, llm_tool_calls = [],
               llm_metadata = [''model'' \<mapsto> dict_get (heap (snd (merge_options w self opts)) (next_ref w)) ''model'']\<rparr>)"
  unfolding generate_dispatch [OF assms] Let_def
  by (simp split: sum.splits option.splits)

lemma generate_heap:
  "heap (snd (snd (generate api w self cid t ctx opts))) = heap (snd (merge_options w self opts))"
proof (cases "truthy (resolve_api_key (snd (merge_options w self opts)) self (next_ref w))")
  case False
  then show ?thesis by (simp add: generate_no_key)
next
  case key: True
  show ?thesis
  proof (cases "anthropic w")
    case False
    then show ?thesis using key by (simp add: generate_no_dependency)
  next
    case True
    show ?thesis
      unfolding generate_dispatch [OF key True] Let_def
      by (simp split: sum.splits option.splits)
  qed
qed


section \<open>The message sequence\<close>

lemma ex_key:
  "resolve_api_key (snd (merge_options ex_world ex_adapter (Some 2))) ex_adapter (next_ref ex_world)
     = PStr ''k1''"
proof -
  have p: "provider_defaults ex_adapter \<noteq> next_ref ex_world"
    by (simp add: ex_adapter_def ex_world_def)
  show ?thesis
    unfolding resolve_api_key_def dict_get_def merge_options_lookup merge_options_frame [OF p] ex_cells
    by (simp add: py_or_def map_add_def)
qed

lemma ex_system:
  "heap (snd (merge_options ex_world ex_adapter (Some 2))) (next_ref ex_world) ''system'' = None"
  unfolding merge_options_lookup ex_cells by (simp add: map_add_def)

lemma ex_empty_system_cells:
  "heap ex_world_empty_system (provider_defaults ex_adapter) =
     [''api_key'' \<mapsto> PStr ''k1'', ''temperature'' \<mapsto> PFloat 0.2]"
  "heap ex_world_empty_system (pipeline_defaults ex_adapter) = [''model'' \<mapsto> PStr ''m1'']"
  "dict_or_empty ex_world_empty_system (Some 2) = [''system'' \<mapsto> PStr []]"
  by (simp_all add: ex_world_empty_system_def ex_adapter_def dict_or_empty_def)

lemma ex_empty_system_key:
  "resolve_api_key (snd (merge_options ex_world_empty_system ex_adapter (Some 2))) ex_adapter
     (next_ref ex_world_empty_system) = PStr ''k1''"
proof -
  have p: "provider_defaults ex_adapter \<noteq> next_ref ex_world_empty_system"
    by (simp add: ex_adapter_def ex_world_empty_system_def)
  show ?thesis
    unfolding resolve_api_key_def dict_get_def merge_options_lookup merge_options_frame [OF p]
      ex_empty_system_cells
    by (simp add: py_or_def map_add_def)
qed

lemma ex_empty_system_system:
  "heap (snd (merge_options ex_world_empty_system ex_adapter (Some 2)))
     (next_ref ex_world_empty_system) ''system'' = Some (PStr [])"
  unfolding merge_options_lookup ex_empty_system_cells by (simp add: map_add_def)

text \<open>
  Claim C3, as amended. A call that is dispatched sends, after the requests sent before,
  one request whose messages are: a system entry with the \<^verbatim>\<open>system\<close> value of the merged
  options and the user entry with the transcript, when that value is true; otherwise a
  system entry with the global \<^verbatim>\<open>llm.prompt\<close> and the user entry, when that prompt is
  true; otherwise the user entry alone. A value counts as true in Python's sense: a
  \<^verbatim>\<open>system\<close> option or a prompt that is \<^verbatim>\<open>None\<close> or the empty string adds no entry.
\<close>

theorem generate_messages:
  assumes "truthy (resolve_api_key (snd (merge_options w self options)) self (next_ref w))"
    and "anthropic w"
  shows "map (req_messages \<circ> snd)
           (requests (snd (snd (generate api w self call_id transcript context options)))) =
         map (req_messages \<circ> snd) (requests w) @
           [if truthy (dict_get (heap (snd (merge_options w self options))
                                      (fst (merge_options w self options))) ''system'')
            then [\<lparr>role = ''system'',
                   content = dict_get (heap (snd (merge_options w self options))
                                           (fst (merge_options w self options))) ''system''\<rparr>,
                  \<lparr>role = ''user'', content = PStr transcript\<rparr>]
            else if truthy (global_prompt (app_config_of self))
            then [\<lparr>role = ''system'', content = global_prompt (app_config_of self)\<rparr>,
                  \<lparr>role = ''user'', content = PStr transcript\<rparr>]
            else [\<lparr>role = ''user'', content = PStr transcript\<rparr>]]"
  unfolding generate_requests [OF assms] merge_options_fst
  by (simp add: build_messages_def resolve_system_prompt_def py_or_def Let_def)

text \<open>
  In the example no layer has \<^verbatim>\<open>system\<close> and no global prompt is configured: one entry.
\<close>

theorem generate_messages_witness:
  "truthy (resolve_api_key (snd (merge_options ex_world ex_adapter (Some 2))) ex_adapter (next_ref ex_world))
   \<and> anthropic ex_world
   \<and> map (req_messages \<circ> snd)
        (requests (snd (snd (generate (\<lambda>c r. Inr (RawResponse None)) ex_world ex_adapter
                                ''call-1'' ''hello'' None (Some 2))))) =
      [[\<lparr>role = ''user'', content = PStr ''hello''\<rparr>]]"
proof -
  have k: "truthy (resolve_api_key (snd (merge_options ex_world ex_adapter (Some 2))) ex_adapter (next_ref ex_world))"
    unfolding ex_key by simp
  have a: "anthropic ex_world" by (simp add: ex_world_def)
  have r: "requests ex_world = []" by (simp add: ex_world_def)
  have g: "global_prompt (app_config_of ex_adapter) = PNone"
    by (simp add: ex_adapter_def global_prompt_def)
  show ?thesis
    using generate_messages [OF k a, of "\<lambda>c r. Inr (RawResponse None)" "''call-1''" "''hello''" None]
    by (simp add: k a r g merge_options_fst dict_get_def ex_system)
qed

text \<open>
  With runtime options \<^verbatim>\<open>{system: ""}\<close> and no global prompt the merged options have the key
  \<^verbatim>\<open>system\<close>, and the only request sent carries one message, the user entry.
\<close>

theorem system_option_present_counterexample:
  "''system'' \<in> dom (heap (snd (merge_options ex_world_empty_system ex_adapter (Some 2)))
                         (fst (merge_options ex_world_empty_system ex_adapter (Some 2))))
   \<and> map (req_messages \<circ> snd)
        (requests (snd (snd (generate (\<lambda>c r. Inr (RawResponse None)) ex_world_empty_system ex_adapter
                                ''call-1'' ''hello'' None (Some 2))))) =
      [[\<lparr>role = ''user'', content = PStr ''hello''\<rparr>]]"
proof -
  have k: "truthy (resolve_api_key (snd (merge_options ex_world_empty_system ex_adapter (Some 2)))
              ex_adapter (next_ref ex_world_empty_system))"
    unfolding ex_empty_system_key by simp
  have a: "anthropic ex_world_empty_system" by (simp add: ex_world_empty_system_def)
  have r: "requests ex_world_empty_system = []" by (simp add: ex_world_empty_system_def)
  have g: "global_prompt (app_config_of ex_adapter) = PNone"
    by (simp add: ex_adapter_def global_prompt_def)
  show ?thesis
    unfolding generate_requests [OF k a] merge_options_fst
    by (simp add: r g build_messages_def resolve_system_prompt_def py_or_def dict_get_def
          ex_empty_system_system domIff)
qed


section \<open>The normalised response\<close>

lemma block_type_text: "(block_type b = PStr ''text'') = is_text_segment b"
  by (cases "type_attr b") (simp_all add: block_type_def is_text_segment_def)

lemma join_text_parts:
  "\<forall>b \<in> set bs. well_typed_segment b \<Longrightarrow>
   join (text_parts bs) = Inr (concat (map segment_text (filter is_text_segment bs)))"
proof (induction bs)
  case Nil
  then show ?case by simp
next
  case (Cons b bs)
  then have ih: "join (text_parts bs) = Inr (concat (map segment_text (filter is_text_segment bs)))"
    by simp
  show ?case
  proof (cases "is_text_segment b")
    case False
    then show ?thesis using ih by (simp add: block_type_text)
  next
    case True
    from Cons.prems have wt: "well_typed_segment b" by simp
    from wt True obtain s where s: "block_text b = PStr s" "segment_text b = s"
      by (auto simp: well_typed_segment_def block_text_def segment_text_def
               split: option.splits pyval.splits)
    show ?thesis using True ih s by (simp add: block_type_text)
  qed
qed

lemma response_text_well_typed:
  "\<forall>b \<in> set (response_blocks resp). well_typed_segment b \<Longrightarrow>
   response_text resp =
     Inr (strip (concat (map segment_text (filter is_text_segment (response_blocks resp)))))"
  by (simp add: response_text_def join_text_parts)

text \<open>What \<open>strip\<close> returns is its argument without a run of white space at each end.\<close>

lemma strip_decompose:
  "\<exists>l r. s = l @ strip s @ r \<and> list_all isspace l \<and> list_all isspace r"
proof -
  let ?t = "dropWhile isspace s"
  have 1: "s = takeWhile isspace s @ ?t" by simp
  have 2: "?t = strip s @ rev (takeWhile isspace (rev ?t))"
    unfolding strip_def by (metis rev_append rev_rev_ident takeWhile_dropWhile_id)
  have 3: "list_all isspace (takeWhile isspace s)"
    by (simp add: list_all_iff) (meson set_takeWhileD)
  have 4: "list_all isspace (rev (takeWhile isspace (rev ?t)))"
    by (simp add: list_all_iff) (meson set_takeWhileD)
  from 1 2 have "s = takeWhile isspace s @ strip s @ rev (takeWhile isspace (rev ?t))" by simp
  with 3 4 show ?thesis by blast
qed

lemma strip_ends:
  "strip s \<noteq> [] \<Longrightarrow> \<not> isspace (hd (strip s)) \<and> \<not> isspace (last (strip s))"
proof -
  assume ne: "strip s \<noteq> []"
  let ?t = "dropWhile isspace s"
  let ?u = "dropWhile isspace (rev ?t)"
  have u: "?u \<noteq> []" using ne by (simp add: strip_def)
  then have hu: "\<not> isspace (hd ?u)" by (rule hd_dropWhile)
  have last: "last (strip s) = hd ?u" using u by (simp add: strip_def last_rev)
  have tne: "?t \<noteq> []"
  proof
    assume "?t = []"
    then have "?u = []" by (simp only: rev.simps dropWhile.simps)
    with u show False by simp
  qed
  then have ht: "\<not> isspace (hd ?t)" by (rule hd_dropWhile)
  obtain pre where pre: "rev ?t = pre @ ?u" by (metis takeWhile_dropWhile_id)
  then have "?t = rev ?u @ rev pre" by (metis rev_append rev_rev_ident)
  then have "hd ?t = hd (rev ?u)" using u by (metis hd_append2 rev_is_Nil_conv)
  then have "hd (strip s) = hd ?t" by (simp add: strip_def)
  with ht hu last show ?thesis by simp
qed

lemma ex_model:
  "heap (snd (merge_options ex_world ex_adapter (Some 2))) (next_ref ex_world) ''model''
     = Some (PStr ''m1'')"
  unfolding merge_options_lookup ex_cells by (simp add: map_add_def)

text \<open>
  Claim C4. For a reply whose content is a list of well typed segments, the response
  that \<^verbatim>\<open>generate\<close> returns has as text the texts of the text-typed segments,
  concatenated in the order of the reply and stripped of white space at both ends (the
  other segments are skipped), an empty list of tool calls, and as metadata the
  dictionary that maps \<^verbatim>\<open>model\<close> to the model of the merged options.
\<close>

theorem generate_response:
  assumes "truthy (resolve_api_key (snd (merge_options w self options)) self (next_ref w))"
    and "anthropic w"
    and "\<forall>b \<in> set (response_blocks resp). well_typed_segment b"
  shows "fst (generate (\<lambda>c r. Inr resp) w self call_id transcript context options) =
     Inr \<lparr>llm_text = strip (concat (map segment_text
                                      (filter is_text_segment (response_blocks resp)))),
          llm_tool_calls = [],
          llm_metadata = [''model'' \<mapsto> dict_get (heap (snd (merge_options w self options))
                                                      (fst (merge_options w self options))) ''model'']\<rparr>"
  unfolding generate_result [OF assms(1,2)] response_text_well_typed [OF assms(3)] merge_options_fst
  by simp

text \<open>
  A reply of a text segment, a tool-use segment and a second text segment.
\<close>

theorem generate_response_witness:
  "fst (generate (\<lambda>c r. Inr (RawResponse (Some
          [Block (Some (PStr ''text'')) (Some (PStr '' Hello'')),
           Block (Some (PStr ''tool_use'')) None,
           Block (Some (PStr ''text'')) (Some (PStr '' world  ''))])))
        ex_world ex_adapter ''call-1'' ''hi'' None (Some 2)) =
     Inr \<lparr>llm_text = ''Hello world'', llm_tool_calls = [],
          llm_metadata = [''model'' \<mapsto> PStr ''m1'']\<rparr>"
proof -
  let ?resp = "RawResponse (Some
          [Block (Some (PStr ''text'')) (Some (PStr '' Hello'')),
           Block (Some (PStr ''tool_use'')) None,
           Block (Some (PStr ''text'')) (Some (PStr '' world  ''))])"
  have k: "truthy (resolve_api_key (snd (merge_options ex_world ex_adapter (Some 2))) ex_adapter (next_ref ex_world))"
    unfolding ex_key by simp
  have a: "anthropic ex_world" by (simp add: ex_world_def)
  have wt: "\<forall>b \<in> set (response_blocks ?resp). well_typed_segment b"
    by (simp add: response_blocks_def well_typed_segment_def)
  have stripped: "strip (concat (map segment_text (filter is_text_segment (response_blocks ?resp))))
               = ''Hello world''"
    by (simp add: response_blocks_def is_text_segment_def segment_text_def strip_def isspace_def)
  show ?thesis
    using generate_response [OF k a wt, of "''call-1''" "''hi''" None]
    by (simp only: stripped merge_options_fst dict_get_def ex_model option.case)
qed


section \<open>The caller's dictionaries\<close>

text \<open>
  Claim C6. \<^verbatim>\<open>generate\<close> leaves the dictionary of the runtime options as it found it,
  whether it returns or raises: the merged options are a new object, at an address that
  differs from the address of every dictionary that existed before the call.
\<close>

theorem generate_keeps_options:
  assumes "options = Some r" and "r < next_ref w"
  shows "heap (snd (snd (generate api w self call_id transcript context options))) r = heap w r
         \<and> fst (merge_options w self options) \<noteq> r"
  using assms by (simp add: generate_heap merge_options_frame merge_options_fst)

text \<open>
  The runtime options of the example, at address 2, after a call.
\<close>

theorem generate_keeps_options_witness:
  "(2::nat) < next_ref ex_world
   \<and> heap (snd (snd (generate (\<lambda>c r. Inr (RawResponse None)) ex_world ex_adapter
                       ''call-1'' ''hi'' None (Some 2)))) 2 = [''temperature'' \<mapsto> PFloat 0.9]
   \<and> fst (merge_options ex_world ex_adapter (Some 2)) \<noteq> 2"
proof -
  have n: "(2::nat) < next_ref ex_world" by (simp add: ex_world_def)
  have h: "heap ex_world 2 = [''temperature'' \<mapsto> PFloat 0.9]" by (simp add: ex_world_def)
  show ?thesis
    using generate_keeps_options [OF refl n, of "\<lambda>c r. Inr (RawResponse None)" ex_adapter
            "''call-1''" "''hi''" None]
    by (simp only: n h simp_thms)
qed

section \<open>Stopping\<close>

text \<open>
  Claim C7. \<^verbatim>\<open>stop\<close> returns without raising in every state of the adapter and of the
  world, so also after any sequence of calls, with or without a \<^verbatim>\<open>start\<close> among them,
  and right after another \<^verbatim>\<open>stop\<close>; it leaves the client handle unset and the
  world, with its record of remote calls, as it was.
\<close>

theorem stop_never_raises:
  "stop w self = (Inr (), self\<lparr>client := None\<rparr>, w)
   \<and> fst (stop (snd (run (self, w) cs)) (fst (run (self, w) cs))) = Inr ()
   \<and> client (fst (snd (stop (snd (run (self, w) cs)) (fst (run (self, w) cs))))) = None
   \<and> snd (snd (stop (snd (run (self, w) cs)) (fst (run (self, w) cs)))) = snd (run (self, w) cs)
   \<and> run (self, w) [Stop, Stop] = (self\<lparr>client := None\<rparr>, w)"
  by (simp add: stop_def run_def)


section \<open>The context argument\<close>

lemma merge_options_context_cell:
  assumes "r \<noteq> provider_defaults self" and "r \<noteq> pipeline_defaults self"
    and "options \<noteq> Some r" and "r \<noteq> next_ref w"
  shows "merge_options (w\<lparr>heap := (heap w)(r := d)\<rparr>) self options =
           (next_ref w,
            (snd (merge_options w self options))
              \<lparr>heap := (heap (snd (merge_options w self options)))(r := d)\<rparr>)"
proof -
  have o: "dict_or_empty (w\<lparr>heap := (heap w)(r := d)\<rparr>) options = dict_or_empty w options"
    using assms(3) by (cases options) (simp_all add: dict_or_empty_def)
  show ?thesis
    unfolding merge_options_eq o using assms
    by (simp add: fun_upd_twist)
qed

lemma resolve_api_key_other_cell:
  "r \<noteq> m \<Longrightarrow> r \<noteq> provider_defaults self \<Longrightarrow>
   resolve_api_key (w\<lparr>heap := (heap w)(r := d)\<rparr>) self m = resolve_api_key w self m"
  by (simp add: resolve_api_key_def)

lemma build_client_other_cell:
  "build_client (w\<lparr>heap := h\<rparr>) self k =
     (fst (build_client w self k), fst (snd (build_client w self k)),
      (snd (snd (build_client w self k)))\<lparr>heap := h\<rparr>)"
  by (simp add: build_client_def Let_def split: option.splits)

lemma build_request_other_cell:
  "r \<noteq> m \<Longrightarrow>
   build_request (w\<lparr>heap := (heap w)(r := d)\<rparr>) self m t = build_request w self m t"
  by (simp add: build_request_def build_messages_def resolve_system_prompt_def
        split: option.splits)

lemma generate_context_contents:
  assumes "r \<noteq> provider_defaults self" and "r \<noteq> pipeline_defaults self"
    and "options \<noteq> Some r" and "r \<noteq> next_ref w"
  shows "generate api (w\<lparr>heap := (heap w)(r := d)\<rparr>) self cid t ctx options =
     (fst (generate api w self cid t ctx options),
      fst (snd (generate api w self cid t ctx options)),
      (snd (snd (generate api w self cid t ctx options)))
        \<lparr>heap := (heap (snd (snd (generate api w self cid t ctx options))))(r := d)\<rparr>)"
proof -
  obtain w1 where mo: "merge_options w self options = (next_ref w, w1)"
    using merge_options_fst [of w self options] by (cases "merge_options w self options") simp
  have mo': "merge_options (w\<lparr>heap := (heap w)(r := d)\<rparr>) self options =
               (next_ref w, w1\<lparr>heap := (heap w1)(r := d)\<rparr>)"
    using merge_options_context_cell [OF assms, of d] mo by simp
  obtain res self1 w2 where bc:
    "build_client w1 self (resolve_api_key w1 self (next_ref w)) = (res, self1, w2)"
    by (cases "build_client w1 self (resolve_api_key w1 self (next_ref w))")
  have h2: "heap w2 = heap w1" using build_client_heap(1) [of w1 self "resolve_api_key w1 self (next_ref w)"] bc by simp
  have rq: "build_request (w2\<lparr>heap := (heap w1)(r := d)\<rparr>) self1 (next_ref w) t
              = build_request w2 self1 (next_ref w) t"
    using build_request_other_cell [OF assms(4), of w2 d self1 t] h2 by simp
  show ?thesis
    unfolding generate_def mo mo'
    by (simp add: resolve_api_key_other_cell assms build_client_other_cell bc rq h2 Let_def
             split: sum.splits)
qed

text \<open>
  Claim C9. The outcome of \<^verbatim>\<open>generate\<close> (the response or the exception, the adapter,
  and the world with the merged options, the dispatched request and its messages) is
  the same for any two context arguments. It is also the same for any two contents of
  the context dictionary: writing \<open>d\<close> into a dictionary at \<open>r\<close> that is none of the
  three option layers before the call gives the same response and adapter, and the same
  world but for the contents \<open>d\<close> at \<open>r\<close>.
\<close>

theorem generate_ignores_context:
  "generate api w self call_id transcript c1 options =
     generate api w self call_id transcript c2 options
   \<and> (r \<noteq> provider_defaults self \<and> r \<noteq> pipeline_defaults self \<and> options \<noteq> Some r
        \<and> r < next_ref w \<longrightarrow>
      generate api (w\<lparr>heap := (heap w)(r := d)\<rparr>) self call_id transcript (Some r) options =
        (fst (generate api w self call_id transcript (Some r) options),
         fst (snd (generate api w self call_id transcript (Some r) options)),
         (snd (snd (generate api w self call_id transcript (Some r) options)))
           \<lparr>heap := (heap (snd (snd (generate api w self call_id transcript (Some r) options))))
                      (r := d)\<rparr>))"
proof (intro conjI impI)
  show "generate api w self call_id transcript c1 options =
          generate api w self call_id transcript c2 options"
    by (simp add: generate_def)
next
  assume a: "r \<noteq> provider_defaults self \<and> r \<noteq> pipeline_defaults self \<and> options \<noteq> Some r
        \<and> r < next_ref w"
  then have "r \<noteq> next_ref w" by simp
  with a show "generate api (w\<lparr>heap := (heap w)(r := d)\<rparr>) self call_id transcript (Some r) options =
        (fst (generate api w self call_id transcript (Some r) options),
         fst (snd (generate api w self call_id transcript (Some r) options)),
         (snd (snd (generate api w self call_id transcript (Some r) options)))
           \<lparr>heap := (heap (snd (snd (generate api w self call_id transcript (Some r) options))))
                      (r := d)\<rparr>)"
    by (simp add: generate_context_contents)
qed

text \<open>
  The example with a context dictionary at address 3.
\<close>

theorem generate_ignores_context_witness:
  "(3::nat) \<noteq> provider_defaults ex_adapter \<and> (3::nat) \<noteq> pipeline_defaults ex_adapter
   \<and> (3::nat) < next_ref (ex_world\<lparr>next_ref := 4\<rparr>)
   \<and> generate (\<lambda>c r. Inr (RawResponse None))
        (ex_world\<lparr>next_ref := 4, heap := (heap ex_world)(3 := [''caller'' \<mapsto> PStr ''1001''])\<rparr>)
        ex_adapter ''call-1'' ''hi'' (Some 3) (Some 2) =
      (fst (generate (\<lambda>c r. Inr (RawResponse None)) (ex_world\<lparr>next_ref := 4\<rparr>) ex_adapter
              ''call-1'' ''hi'' None (Some 2)),
       fst (snd (generate (\<lambda>c r. Inr (RawResponse None)) (ex_world\<lparr>next_ref := 4\<rparr>) ex_adapter
              ''call-1'' ''hi'' None (Some 2))),
       (snd (snd (generate (\<lambda>c r. Inr (RawResponse None)) (ex_world\<lparr>next_ref := 4\<rparr>) ex_adapter
              ''call-1'' ''hi'' None (Some 2))))
         \<lparr>heap := (heap (snd (snd (generate (\<lambda>c r. Inr (RawResponse None))
                      (ex_world\<lparr>next_ref := 4\<rparr>) ex_adapter ''call-1'' ''hi'' None (Some 2)))))
                    (3 := [''caller'' \<mapsto> PStr ''1001''])\<rparr>)"
proof -
  let ?w = "ex_world\<lparr>next_ref := 4\<rparr>"
  let ?api = "\<lambda>c r. Inr (RawResponse None) :: py_error + raw_response"
  have h: "(3::nat) \<noteq> provider_defaults ex_adapter \<and> (3::nat) \<noteq> pipeline_defaults ex_adapter
             \<and> Some (2::nat) \<noteq> Some 3 \<and> (3::nat) < next_ref ?w"
    by (simp add: ex_adapter_def)
  have c: "generate ?api ?w ex_adapter ''call-1'' ''hi'' (Some 3) (Some 2) =
           generate ?api ?w ex_adapter ''call-1'' ''hi'' None (Some 2)"
    using generate_ignores_context [of ?api ?w ex_adapter "''call-1''" "''hi''" "Some 3" "Some 2" None]
    by simp
  have u: "?w\<lparr>heap := (heap ?w)(3 := [''caller'' \<mapsto> PStr ''1001''])\<rparr> =
           ex_world\<lparr>next_ref := 4, heap := (heap ex_world)(3 := [''caller'' \<mapsto> PStr ''1001''])\<rparr>"
    by simp
  show ?thesis
    using generate_ignores_context [of ?api ?w ex_adapter "''call-1''" "''hi''" "Some 3" "Some 2"
            "Some 3" 3 "[''caller'' \<mapsto> PStr ''1001'']"] h
    unfolding c u by (simp only: simp_thms)
qed


section \<open>The client handle\<close>

lemma generate_reuses_client:
  assumes "client self = Some c"
  shows "client (fst (snd (generate api w self cid t ctx opts))) = Some c"
    and "constructed (snd (snd (generate api w self cid t ctx opts))) = constructed w"
proof -
  have "client (fst (snd (generate api w self cid t ctx opts))) = Some c
        \<and> constructed (snd (snd (generate api w self cid t ctx opts))) = constructed w"
  proof (cases "truthy (resolve_api_key (snd (merge_options w self opts)) self (next_ref w))")
    case False
    then show ?thesis using assms by (simp add: generate_no_key merge_options_fields)
  next
    case key: True
    show ?thesis
    proof (cases "anthropic w")
      case False
      then show ?thesis using key assms by (simp add: generate_no_dependency merge_options_fields)
    next
      case True
      show ?thesis
        using assms by (simp add: generate_client [OF key True] generate_constructed [OF key True])
    qed
  qed
  then show "client (fst (snd (generate api w self cid t ctx opts))) = Some c"
    and "constructed (snd (snd (generate api w self cid t ctx opts))) = constructed w"
    by simp_all
qed

text \<open>
  The number of handles constructed so far, plus one while the adapter holds none: no
  call but \<^verbatim>\<open>stop\<close> makes it grow.
\<close>

lemma generate_potential:
  "length (constructed (snd (snd (generate api w self cid t ctx opts))))
     + (if client (fst (snd (generate api w self cid t ctx opts))) = None then 1 else 0)
   \<le> length (constructed w) + (if client self = None then 1 else 0)"
proof (cases "truthy (resolve_api_key (snd (merge_options w self opts)) self (next_ref w))")
  case False
  then show ?thesis by (simp add: generate_no_key merge_options_fields)
next
  case key: True
  show ?thesis
  proof (cases "anthropic w")
    case False
    then show ?thesis using key by (simp add: generate_no_dependency merge_options_fields)
  next
    case True
    show ?thesis
      by (simp add: generate_client [OF key True] generate_constructed [OF key True]
               split: option.splits)
  qed
qed

lemma step_potential:
  "length (constructed (snd (step s c))) + (if client (fst (step s c)) = None then 1 else 0)
   \<le> length (constructed (snd s)) + (if client (fst s) = None then 1 else 0)
       + (if is_stop c then 1 else 0)"
proof (cases s)
  case (Pair self w)
  show ?thesis
  proof (cases c)
    case (Generate api cid t ctx opts)
    then show ?thesis using generate_potential [of api w self cid t ctx opts] Pair by simp
  qed (simp_all add: Pair start_def stop_def open_call_def close_call_def)
qed

lemma run_potential:
  "length (constructed (snd (run s cs))) + (if client (fst (run s cs)) = None then 1 else 0)
   \<le> length (constructed (snd s)) + (if client (fst s) = None then 1 else 0)
       + length (filter is_stop cs)"
proof (induction cs arbitrary: s)
  case Nil
  then show ?case by (simp add: run_def)
next
  case (Cons c cs)
  have "run s (c # cs) = run (step s c) cs" by (simp add: run_def)
  with Cons [of "step s c"] step_potential [of s c] show ?case by auto
qed

lemma run_reuses_client:
  "\<forall>c \<in> set cs. \<not> is_stop c \<Longrightarrow> client (fst s) = Some cl \<Longrightarrow>
   client (fst (run s cs)) = Some cl \<and> constructed (snd (run s cs)) = constructed (snd s)"
proof (induction cs arbitrary: s)
  case Nil
  then show ?case by (simp add: run_def)
next
  case (Cons c cs)
  obtain self w where s: "s = (self, w)" by (cases s)
  have r: "run s (c # cs) = run (step s c) cs" by (simp add: run_def)
  have st: "client (fst (step s c)) = Some cl \<and> constructed (snd (step s c)) = constructed (snd s)"
  proof (cases c)
    case (Generate api cid t ctx opts)
    then show ?thesis using generate_reuses_client [of self cl api w cid t ctx opts] Cons.prems(2) s
      by simp
  next
    case Stop
    then show ?thesis using Cons.prems(1) by simp
  qed (use Cons.prems(2) s in \<open>simp_all add: start_def open_call_def close_call_def\<close>)
  from Cons.IH [of "step s c"] Cons.prems(1) st show ?case unfolding r by simp
qed

text \<open>
  Claim C5. A \<^verbatim>\<open>generate\<close> call that reaches the construction while the adapter holds
  no handle constructs one, with the key resolved on that call. A call on an adapter
  that holds a handle keeps that very handle and constructs nothing, whatever key it
  resolves. \<^verbatim>\<open>stop\<close> unsets the handle. Over any sequence of calls the number of
  constructions is at most one for the adapter's first segment (none if it starts with
  a handle) plus one for each \<^verbatim>\<open>stop\<close>; over a sequence without \<^verbatim>\<open>stop\<close> an adapter that
  holds a handle keeps it and nothing is constructed.
\<close>

theorem client_constructed_once_per_segment:
  "(truthy (resolve_api_key (snd (merge_options w self options)) self (next_ref w))
      \<and> anthropic w \<and> client self = None \<longrightarrow>
      client (fst (snd (generate api w self call_id transcript context options))) =
        Some (Anthropic (length (constructed w))
               (resolve_api_key (snd (merge_options w self options)) self (next_ref w)))
      \<and> constructed (snd (snd (generate api w self call_id transcript context options))) =
        constructed w @ [Anthropic (length (constructed w))
               (resolve_api_key (snd (merge_options w self options)) self (next_ref w))])
   \<and> (client self = Some c \<longrightarrow>
      client (fst (snd (generate api w self call_id transcript context options))) = Some c
      \<and> constructed (snd (snd (generate api w self call_id transcript context options))) =
        constructed w)
   \<and> client (fst (snd (stop w self))) = None
   \<and> length (constructed (snd (run (self, w) cs)))
        \<le> length (constructed w) + (if client self = None then 1 else 0)
            + length (filter is_stop cs)
   \<and> ((\<forall>x \<in> set cs. \<not> is_stop x) \<and> client self = Some c \<longrightarrow>
      client (fst (run (self, w) cs)) = Some c
      \<and> constructed (snd (run (self, w) cs)) = constructed w)"
proof (intro conjI impI)
  assume a: "truthy (resolve_api_key (snd (merge_options w self options)) self (next_ref w))
      \<and> anthropic w \<and> client self = None"
  then have k: "truthy (resolve_api_key (snd (merge_options w self options)) self (next_ref w))"
    and d: "anthropic w" and n: "client self = None" by simp_all
  show "client (fst (snd (generate api w self call_id transcript context options))) =
        Some (Anthropic (length (constructed w))
               (resolve_api_key (snd (merge_options w self options)) self (next_ref w)))"
    by (simp add: generate_client [OF k d] n)
  show "constructed (snd (snd (generate api w self call_id transcript context options))) =
        constructed w @ [Anthropic (length (constructed w))
               (resolve_api_key (snd (merge_options w self options)) self (next_ref w))]"
    by (simp add: generate_constructed [OF k d] n)
next
  assume "client self = Some c"
  then show "client (fst (snd (generate api w self call_id transcript context options))) = Some c"
    and "constructed (snd (snd (generate api w self call_id transcript context options))) =
        constructed w"
    by (rule generate_reuses_client)+
next
  show "client (fst (snd (stop w self))) = None" by (simp add: stop_def)
next
  show "length (constructed (snd (run (self, w) cs)))
        \<le> length (constructed w) + (if client self = None then 1 else 0)
            + length (filter is_stop cs)"
    using run_potential [of "(self, w)" cs] by simp
next
  assume a: "(\<forall>x \<in> set cs. \<not> is_stop x) \<and> client self = Some c"
  then have "client (fst (run (self, w) cs)) = Some c
      \<and> constructed (snd (run (self, w) cs)) = constructed (snd (self, w))"
    using run_reuses_client [of cs "(self, w)" c] by simp
  then show "client (fst (run (self, w) cs)) = Some c"
    and "constructed (snd (run (self, w) cs)) = constructed w" by simp_all
qed

text \<open>
  A first call of the example adapter builds the handle with \<^verbatim>\<open>"k1"\<close>; a later call whose runtime
  options resolve \<^verbatim>\<open>"k2"\<close> keeps it.
\<close>

theorem client_constructed_once_per_segment_witness:
  "client (fst (snd (generate (\<lambda>c r. Inr (RawResponse None)) ex_world ex_adapter
                       ''call-1'' ''hi'' None (Some 2)))) = Some (Anthropic 0 (PStr ''k1''))
   \<and> constructed (snd (snd (generate (\<lambda>c r. Inr (RawResponse None)) ex_world ex_adapter
                       ''call-1'' ''hi'' None (Some 2)))) = [Anthropic 0 (PStr ''k1'')]
   \<and> resolve_api_key
        (snd (merge_options
               (ex_world\<lparr>heap := (heap ex_world)(2 := [''api_key'' \<mapsto> PStr ''k2'']),
                         constructed := [Anthropic 0 (PStr ''k1'')]\<rparr>)
               (ex_adapter\<lparr>client := Some (Anthropic 0 (PStr ''k1''))\<rparr>) (Some 2)))
        (ex_adapter\<lparr>client := Some (Anthropic 0 (PStr ''k1''))\<rparr>) 3 = PStr ''k2''
   \<and> client (fst (snd (generate (\<lambda>c r. Inr (RawResponse None))
               (ex_world\<lparr>heap := (heap ex_world)(2 := [''api_key'' \<mapsto> PStr ''k2'']),
                         constructed := [Anthropic 0 (PStr ''k1'')]\<rparr>)
               (ex_adapter\<lparr>client := Some (Anthropic 0 (PStr ''k1''))\<rparr>)
               ''call-2'' ''hi'' None (Some 2)))) = Some (Anthropic 0 (PStr ''k1''))
   \<and> constructed (snd (snd (generate (\<lambda>c r. Inr (RawResponse None))
               (ex_world\<lparr>heap := (heap ex_world)(2 := [''api_key'' \<mapsto> PStr ''k2'']),
                         constructed := [Anthropic 0 (PStr ''k1'')]\<rparr>)
               (ex_adapter\<lparr>client := Some (Anthropic 0 (PStr ''k1''))\<rparr>)
               ''call-2'' ''hi'' None (Some 2)))) = [Anthropic 0 (PStr ''k1'')]"
proof -
  let ?api = "\<lambda>c r. Inr (RawResponse None) :: py_error + raw_response"
  let ?w2 = "ex_world\<lparr>heap := (heap ex_world)(2 := [''api_key'' \<mapsto> PStr ''k2'']),
                      constructed := [Anthropic 0 (PStr ''k1'')]\<rparr>"
  let ?a2 = "ex_adapter\<lparr>client := Some (Anthropic 0 (PStr ''k1''))\<rparr>"
  have k: "truthy (resolve_api_key (snd (merge_options ex_world ex_adapter (Some 2))) ex_adapter (next_ref ex_world))"
    unfolding ex_key by simp
  have a: "anthropic ex_world" and n: "client ex_adapter = None"
    and c0: "constructed ex_world = []"
    by (simp_all add: ex_world_def ex_adapter_def)
  have first: "client (fst (snd (generate ?api ex_world ex_adapter ''call-1'' ''hi'' None (Some 2))))
                 = Some (Anthropic 0 (PStr ''k1''))
     \<and> constructed (snd (snd (generate ?api ex_world ex_adapter ''call-1'' ''hi'' None (Some 2))))
                 = [Anthropic 0 (PStr ''k1'')]"
    using client_constructed_once_per_segment
            [of ex_world ex_adapter "Some 2" ?api "''call-1''" "''hi''" None "Anthropic 0 PNone" "[]"] k a n
    by (simp add: ex_key c0)
  have n2: "next_ref ?w2 = 3" by (simp add: ex_world_def)
  have p2: "provider_defaults ?a2 \<noteq> next_ref ?w2" by (simp add: ex_world_def ex_adapter_def)
  have cells2:
    "heap ?w2 (provider_defaults ?a2) = [''api_key'' \<mapsto> PStr ''k1'', ''temperature'' \<mapsto> PFloat 0.2]"
    "heap ?w2 (pipeline_defaults ?a2) = [''model'' \<mapsto> PStr ''m1'']"
    "dict_or_empty ?w2 (Some 2) = [''api_key'' \<mapsto> PStr ''k2'']"
    by (simp_all add: ex_world_def ex_adapter_def dict_or_empty_def)
  have key2: "resolve_api_key (snd (merge_options ?w2 ?a2 (Some 2))) ?a2 (next_ref ?w2) = PStr ''k2''"
    unfolding resolve_api_key_def dict_get_def merge_options_lookup merge_options_frame [OF p2] cells2
    by (simp add: py_or_def map_add_def)
  have c2: "client ?a2 = Some (Anthropic 0 (PStr ''k1''))" and c2': "constructed ?w2 = [Anthropic 0 (PStr ''k1'')]"
    by simp_all
  have second: "client (fst (snd (generate ?api ?w2 ?a2 ''call-2'' ''hi'' None (Some 2))))
                 = Some (Anthropic 0 (PStr ''k1''))
     \<and> constructed (snd (snd (generate ?api ?w2 ?a2 ''call-2'' ''hi'' None (Some 2))))
                 = [Anthropic 0 (PStr ''k1'')]"
    using client_constructed_once_per_segment
            [of ?w2 ?a2 "Some 2" ?api "''call-2''" "''hi''" None "Anthropic 0 (PStr ''k1'')" "[]"] c2
    by (simp only: c2' simp_thms)
  show ?thesis using first second key2 unfolding n2 by blast
qed


section \<open>The missing client library\<close>

lemma generate_missing:
  assumes "\<not> anthropic w"
  shows "\<not> anthropic (snd (snd (generate api w self cid t ctx opts)))
         \<and> requests (snd (snd (generate api w self cid t ctx opts))) = requests w
         \<and> constructed (snd (snd (generate api w self cid t ctx opts))) = constructed w"
proof (cases "truthy (resolve_api_key (snd (merge_options w self opts)) self (next_ref w))")
  case False
  then show ?thesis using assms by (simp add: generate_no_key merge_options_fields)
next
  case True
  then show ?thesis using assms by (simp add: generate_no_dependency merge_options_fields)
qed

lemma step_missing:
  assumes "\<not> anthropic (snd s)"
  shows "\<not> anthropic (snd (step s c)) \<and> requests (snd (step s c)) = requests (snd s)
         \<and> constructed (snd (step s c)) = constructed (snd s)"
proof (cases s)
  case (Pair self w)
  show ?thesis
  proof (cases c)
    case (Generate api cid t ctx opts)
    then show ?thesis using generate_missing [of w api self cid t ctx opts] assms Pair by simp
  qed (use assms Pair in \<open>simp_all add: start_def stop_def open_call_def close_call_def\<close>)
qed

lemma run_missing:
  "\<not> anthropic (snd s) \<Longrightarrow>
   \<not> anthropic (snd (run s cs)) \<and> requests (snd (run s cs)) = requests (snd s)
     \<and> constructed (snd (run s cs)) = constructed (snd s)"
proof (induction cs arbitrary: s)
  case Nil
  then show ?case by (simp add: run_def)
next
  case (Cons c cs)
  have r: "run s (c # cs) = run (step s c) cs" by (simp add: run_def)
  from step_missing [OF Cons.prems, of c] Cons.IH [of "step s c"] show ?case
    unfolding r by simp
qed

lemma ref_or_new_fields:
  "constructed (snd (ref_or_new w r)) = constructed w"
  "requests (snd (ref_or_new w r)) = requests w"
  "logged (snd (ref_or_new w r)) = logged w"
  "anthropic (snd (ref_or_new w r)) = anthropic w"
  by (simp_all add: ref_or_new_def new_dict_def split: option.splits)

lemma init_fields:
  "client (fst (init w key cfg pc po)) = None"
  "constructed (snd (init w key cfg pc po)) = constructed w"
  "requests (snd (init w key cfg pc po)) = requests w"
  "logged (snd (init w key cfg pc po)) = logged w"
  by (simp_all add: init_def Let_def ref_or_new_fields split: prod.splits)
     (metis ref_or_new_fields snd_conv)+

text \<open>
  Claim C8. When the \<^verbatim>\<open>anthropic\<close> library is unavailable, \<^verbatim>\<open>start\<close> returns without
  raising and only appends a warning to the log; constructing the adapter builds no
  client and raises nothing; and after \<^verbatim>\<open>start\<close> and any further calls, a \<^verbatim>\<open>generate\<close>
  that resolves an \<^verbatim>\<open>api_key\<close> raises the \<^verbatim>\<open>RuntimeError\<close> of the missing package from
  the client construction, while no client has been constructed and no remote call has
  been dispatched since the beginning.
\<close>

theorem missing_dependency_is_lazy:
  assumes "\<not> anthropic w"
  shows "start w self =
           (Inr (), self,
            w\<lparr>logged := logged w @ [Warning ''anthropic package not installed; Claude adapter will not run'']\<rparr>)
   \<and> client (fst (init w key cfg provider_config pipeline_options)) = None
   \<and> constructed (snd (init w key cfg provider_config pipeline_options)) = constructed w
   \<and> requests (snd (init w key cfg provider_config pipeline_options)) = requests w
   \<and> (truthy (resolve_api_key
                 (snd (merge_options (snd (run (self, w) (Start # cs)))
                                     (fst (run (self, w) (Start # cs))) options))
                 (fst (run (self, w) (Start # cs)))
                 (next_ref (snd (run (self, w) (Start # cs))))) \<longrightarrow>
        fst (generate api (snd (run (self, w) (Start # cs))) (fst (run (self, w) (Start # cs)))
               call_id transcript ctx options) =
          Inl (RuntimeError ''anthropic package is not installed. Run `pip install anthropic`.'')
        \<and> requests (snd (snd (generate api (snd (run (self, w) (Start # cs)))
                       (fst (run (self, w) (Start # cs))) call_id transcript ctx options))) =
            requests w
        \<and> constructed (snd (snd (generate api (snd (run (self, w) (Start # cs)))
                       (fst (run (self, w) (Start # cs))) call_id transcript ctx options))) =
            constructed w)"
proof (intro conjI impI)
  show "start w self =
           (Inr (), self,
            w\<lparr>logged := logged w @ [Warning ''anthropic package not installed; Claude adapter will not run'']\<rparr>)"
    using assms by (simp add: start_def)
  show "client (fst (init w key cfg provider_config pipeline_options)) = None"
    and "constructed (snd (init w key cfg provider_config pipeline_options)) = constructed w"
    and "requests (snd (init w key cfg provider_config pipeline_options)) = requests w"
    by (rule init_fields)+
next
  let ?s = "run (self, w) (Start # cs)"
  assume k: "truthy (resolve_api_key (snd (merge_options (snd ?s) (fst ?s) options)) (fst ?s)
                (next_ref (snd ?s)))"
  have m: "\<not> anthropic (snd ?s)" "requests (snd ?s) = requests w"
    "constructed (snd ?s) = constructed w"
    using run_missing [of "(self, w)" "Start # cs"] assms by simp_all
  note g = generate_no_dependency [OF k m(1), of api call_id transcript ctx]
  show "fst (generate api (snd ?s) (fst ?s) call_id transcript ctx options) =
          Inl (RuntimeError ''anthropic package is not installed. Run `pip install anthropic`.'')"
    unfolding g by simp
  show "requests (snd (snd (generate api (snd ?s) (fst ?s) call_id transcript ctx options))) =
            requests w"
    unfolding g by (simp add: merge_options_fields m)
  show "constructed (snd (snd (generate api (snd ?s) (fst ?s) call_id transcript ctx options))) =
            constructed w"
    unfolding g by (simp add: merge_options_fields m)
qed

text \<open>
  The example without the library: \<^verbatim>\<open>start\<close>, then a call that resolves \<^verbatim>\<open>"k1"\<close>.
\<close>

theorem missing_dependency_is_lazy_witness:
  "\<not> anthropic (ex_world\<lparr>anthropic := False\<rparr>)
   \<and> fst (start (ex_world\<lparr>anthropic := False\<rparr>) ex_adapter) = Inr ()
   \<and> logged (snd (snd (start (ex_world\<lparr>anthropic := False\<rparr>) ex_adapter))) =
       [Warning ''anthropic package not installed; Claude adapter will not run'']
   \<and> fst (generate (\<lambda>c r. Inr (RawResponse None))
            (snd (run (ex_adapter, ex_world\<lparr>anthropic := False\<rparr>) [Start]))
            (fst (run (ex_adapter, ex_world\<lparr>anthropic := False\<rparr>) [Start]))
            ''call-1'' ''hi'' None (Some 2)) =
       Inl (RuntimeError ''anthropic package is not installed. Run `pip install anthropic`.'')
   \<and> requests (snd (snd (generate (\<lambda>c r. Inr (RawResponse None))
            (snd (run (ex_adapter, ex_world\<lparr>anthropic := False\<rparr>) [Start]))
            (fst (run (ex_adapter, ex_world\<lparr>anthropic := False\<rparr>) [Start]))
            ''call-1'' ''hi'' None (Some 2)))) = []"
proof -
  let ?w = "ex_world\<lparr>anthropic := False\<rparr>"
  let ?w1 = "?w\<lparr>logged := logged ?w @ [Warning ''anthropic package not installed; Claude adapter will not run'']\<rparr>"
  have a: "\<not> anthropic ?w" by simp
  have r: "run (ex_adapter, ?w) [Start] = (ex_adapter, ?w1)"
    by (simp add: run_def start_def)
  have l: "logged ?w = []" and q: "requests ?w = []" by (simp_all add: ex_world_def)
  have n: "next_ref ?w1 = 3" by (simp add: ex_world_def)
  have p: "provider_defaults ex_adapter \<noteq> next_ref ?w1" by (simp add: ex_world_def ex_adapter_def)
  have cells:
    "heap ?w1 (provider_defaults ex_adapter) = [''api_key'' \<mapsto> PStr ''k1'', ''temperature'' \<mapsto> PFloat 0.2]"
    "heap ?w1 (pipeline_defaults ex_adapter) = [''model'' \<mapsto> PStr ''m1'']"
    "dict_or_empty ?w1 (Some 2) = [''temperature'' \<mapsto> PFloat 0.9]"
    by (simp_all add: ex_world_def ex_adapter_def dict_or_empty_def)
  have key: "resolve_api_key (snd (merge_options ?w1 ex_adapter (Some 2))) ex_adapter (next_ref ?w1)
               = PStr ''k1''"
    unfolding resolve_api_key_def dict_get_def merge_options_lookup merge_options_frame [OF p] cells
    by (simp add: py_or_def map_add_def)
  have k: "truthy (resolve_api_key (snd (merge_options ?w1 ex_adapter (Some 2))) ex_adapter (next_ref ?w1))"
    unfolding key by simp
  show ?thesis
    using missing_dependency_is_lazy [OF a, where self = ex_adapter and cs = "[]" and options = "Some 2"
              and api = "\<lambda>c r. Inr (RawResponse None)" and call_id = "''call-1''"
              and transcript = "''hi''" and ctx = None and key = "''claude_llm''"
              and cfg = "AppConfig None" and provider_config = None
              and pipeline_options = None] k
    unfolding r by (simp add: l q)
qed


section \<open>An empty key in a higher layer\<close>

lemma falsy_key_resolved:
  assumes "provider_defaults self < next_ref w"
    and "(heap w (pipeline_defaults self) ++ dict_or_empty w options) ''api_key'' = Some v"
    and "\<not> truthy v"
  shows "resolve_api_key (snd (merge_options w self options)) self (next_ref w) =
           dict_get (heap w (provider_defaults self)) ''api_key''"
proof -
  have m: "heap (snd (merge_options w self options)) (next_ref w) ''api_key'' = Some v"
    using assms(2) by (simp add: merged_other_key map_add_def split: option.splits)
  have p: "heap (snd (merge_options w self options)) (provider_defaults self) =
             heap w (provider_defaults self)"
    using assms(1) by (simp add: merge_options_frame)
  show ?thesis using assms(3) by (simp add: resolve_api_key_def py_or_def dict_get_def m p)
qed

text \<open>
  Claim C10. When the pipeline defaults or the runtime options set \<^verbatim>\<open>api_key\<close> to a
  false value such as the empty string and the provider defaults hold a true
  \<^verbatim>\<open>api_key\<close>, the key that \<^verbatim>\<open>generate\<close> resolves is the provider's: the call passes
  the credential check, a client built on this call gets the provider's key, the request
  is dispatched and a well typed reply is returned as a response. (Without the
  \<^verbatim>\<open>anthropic\<close> library the call raises the error of the missing package, as for any
  key.)
\<close>

theorem falsy_api_key_falls_back_to_provider:
  assumes "provider_defaults self < next_ref w"
    and "(heap w (pipeline_defaults self) ++ dict_or_empty w options) ''api_key'' = Some v"
    and "\<not> truthy v"
    and "truthy (dict_get (heap w (provider_defaults self)) ''api_key'')"
  shows "resolve_api_key (snd (merge_options w self options)) self (next_ref w) =
           dict_get (heap w (provider_defaults self)) ''api_key''
   \<and> (anthropic w \<and> client self = None \<longrightarrow>
        client (fst (snd (generate api w self call_id transcript ctx options))) =
          Some (Anthropic (length (constructed w))
                  (dict_get (heap w (provider_defaults self)) ''api_key'')))
   \<and> (anthropic w \<longrightarrow>
        length (requests (snd (snd (generate api w self call_id transcript ctx options)))) =
          Suc (length (requests w)))
   \<and> (anthropic w \<and> (\<forall>b \<in> set (response_blocks resp). well_typed_segment b) \<longrightarrow>
        (\<exists>out. fst (generate (\<lambda>c r. Inr resp) w self call_id transcript ctx options) = Inr out))
   \<and> (\<not> anthropic w \<longrightarrow>
        fst (generate api w self call_id transcript ctx options) =
          Inl (RuntimeError ''anthropic package is not installed. Run `pip install anthropic`.''))"
proof -
  note key = falsy_key_resolved [OF assms(1-3)]
  have k: "truthy (resolve_api_key (snd (merge_options w self options)) self (next_ref w))"
    unfolding key by (rule assms(4))
  show ?thesis
  proof (intro conjI impI)
    show "resolve_api_key (snd (merge_options w self options)) self (next_ref w) =
           dict_get (heap w (provider_defaults self)) ''api_key''" by (rule key)
  next
    assume "anthropic w \<and> client self = None"
    then show "client (fst (snd (generate api w self call_id transcript ctx options))) =
          Some (Anthropic (length (constructed w))
                  (dict_get (heap w (provider_defaults self)) ''api_key''))"
      using generate_client [OF k, of api call_id transcript ctx] by (simp add: key)
  next
    assume "anthropic w"
    then show "length (requests (snd (snd (generate api w self call_id transcript ctx options)))) =
          Suc (length (requests w))"
      using generate_requests [OF k, of api call_id transcript ctx] by simp
  next
    assume a: "anthropic w \<and> (\<forall>b \<in> set (response_blocks resp). well_typed_segment b)"
    then have d: "anthropic w" and wt: "\<forall>b \<in> set (response_blocks resp). well_typed_segment b"
      by simp_all
    show "\<exists>out. fst (generate (\<lambda>c r. Inr resp) w self call_id transcript ctx options) = Inr out"
      unfolding generate_result [OF k d] response_text_well_typed [OF wt] by simp
  next
    assume "\<not> anthropic w"
    then show "fst (generate api w self call_id transcript ctx options) =
          Inl (RuntimeError ''anthropic package is not installed. Run `pip install anthropic`.'')"
      using generate_no_dependency [OF k, of api call_id transcript ctx] by simp
  qed
qed

text \<open>
  The example with pipeline defaults \<^verbatim>\<open>{model: "m1", api_key: ""}\<close>.
\<close>

theorem falsy_api_key_falls_back_to_provider_witness:
  "(heap (ex_world\<lparr>heap := (heap ex_world)(1 := [''model'' \<mapsto> PStr ''m1'', ''api_key'' \<mapsto> PStr []])\<rparr>)
         (pipeline_defaults ex_adapter)
      ++ dict_or_empty
           (ex_world\<lparr>heap := (heap ex_world)(1 := [''model'' \<mapsto> PStr ''m1'', ''api_key'' \<mapsto> PStr []])\<rparr>)
           (Some 2)) ''api_key'' = Some (PStr [])
   \<and> \<not> truthy (PStr [])
   \<and> client (fst (snd (generate (\<lambda>c r. Inr (RawResponse None))
          (ex_world\<lparr>heap := (heap ex_world)(1 := [''model'' \<mapsto> PStr ''m1'', ''api_key'' \<mapsto> PStr []])\<rparr>)
          ex_adapter ''call-1'' ''hi'' None (Some 2)))) = Some (Anthropic 0 (PStr ''k1''))
   \<and> length (requests (snd (snd (generate (\<lambda>c r. Inr (RawResponse None))
          (ex_world\<lparr>heap := (heap ex_world)(1 := [''model'' \<mapsto> PStr ''m1'', ''api_key'' \<mapsto> PStr []])\<rparr>)
          ex_adapter ''call-1'' ''hi'' None (Some 2))))) = 1"
proof -
  let ?w = "ex_world\<lparr>heap := (heap ex_world)(1 := [''model'' \<mapsto> PStr ''m1'', ''api_key'' \<mapsto> PStr []])\<rparr>"
  have p: "provider_defaults ex_adapter < next_ref ?w"
    by (simp add: ex_world_def ex_adapter_def)
  have cells:
    "heap ?w (provider_defaults ex_adapter) = [''api_key'' \<mapsto> PStr ''k1'', ''temperature'' \<mapsto> PFloat 0.2]"
    "heap ?w (pipeline_defaults ex_adapter) = [''model'' \<mapsto> PStr ''m1'', ''api_key'' \<mapsto> PStr []]"
    "dict_or_empty ?w (Some 2) = [''temperature'' \<mapsto> PFloat 0.9]"
    by (simp_all add: ex_world_def ex_adapter_def dict_or_empty_def)
  have h: "(heap ?w (pipeline_defaults ex_adapter) ++ dict_or_empty ?w (Some 2)) ''api_key''
             = Some (PStr [])"
    unfolding cells by (simp add: map_add_def)
  have f: "\<not> truthy (PStr [])" by simp
  have pk: "dict_get (heap ?w (provider_defaults ex_adapter)) ''api_key'' = PStr ''k1''"
    unfolding cells by (simp add: dict_get_def)
  have t: "truthy (dict_get (heap ?w (provider_defaults ex_adapter)) ''api_key'')"
    unfolding pk by simp
  have a: "anthropic ?w" and n: "client ex_adapter = None" and c: "constructed ?w = []"
    and q: "requests ?w = []"
    by (simp_all add: ex_world_def ex_adapter_def)
  note T = falsy_api_key_falls_back_to_provider [OF p h f t,
            where api = "\<lambda>c r. Inr (RawResponse None)" and call_id = "''call-1''"
              and transcript = "''hi''" and ctx = None and resp = "RawResponse None"]
  let ?g = "generate (\<lambda>c r. Inr (RawResponse None)) ?w ex_adapter ''call-1'' ''hi'' None (Some 2)"
  from T a n have "client (fst (snd ?g)) =
      Some (Anthropic (length (constructed ?w))
              (dict_get (heap ?w (provider_defaults ex_adapter)) ''api_key''))"
    by blast
  then have 1: "client (fst (snd ?g)) = Some (Anthropic 0 (PStr ''k1''))"
    by (simp only: c pk list.size)
  from T a have "length (requests (snd (snd ?g))) = Suc (length (requests ?w))" by blast
  then have 2: "length (requests (snd (snd ?g))) = 1"
    using q by simp
  from h f 1 2 show ?thesis by blast
qed

end
